theory Spec2Isabelle
  imports Complex_Main
begin

section \<open>Data shared by the whole script\<close>

text \<open>
  A Python \<open>str\<close> is a sequence of Unicode code points; a \<open>bytes\<close> value is a
  sequence of numbers below 256. Both are lists of naturals here. ASCII literals of the
  source are written as HOL string literals and converted by \<open>py\<close>.
\<close>

type_synonym pystr = "nat list"
type_synonym pybytes = "nat list"

definition py :: "string \<Rightarrow> pystr" where
  "py s = map of_char s"

text \<open>
  A decoded JSON document, as \<open>r.json()\<close> gives it: \<open>None\<close>, \<open>bool\<close>, \<open>int\<close>,
  \<open>float\<close> (finite values only), \<open>str\<close>, \<open>list\<close> and \<open>dict\<close> (in insertion order, the
  keys distinct).
\<close>

datatype json =
    JNull
  | JBool bool
  | JInt int
  | JFloat rat
  | JStr pystr
  | JArr "json list"
  | JObj "(pystr \<times> json) list"

text \<open>
  Exceptions (subclasses of Python's \<open>Exception\<close>) that the script can meet, as values.
  \<open>HTTPStatusError\<close> carries the status code, \<open>TransportError\<close> a number that tells
  one failure of the connection from another, and \<open>RuntimeError\<close> the two values that
  \<open>ckan_call\<close> formats into its message. Asynchronous interrupts
  (\<open>KeyboardInterrupt\<close>) are outside this model.
\<close>

datatype error =
    HTTPStatusError int
  | TransportError nat
  | JSONDecodeError
  | AttributeError
  | TypeError
  | ValueError
  | KeyError pystr
  | RuntimeError pystr json
  | AssertionError
  | FileExistsError
  | FileNotFoundError
  | IsADirectoryError
  | NotADirectoryError

text \<open>A path of the file system, as its components below the root.\<close>

type_synonym path = "pystr list"

text \<open>
  One line written to standard output. The f-strings of the script are not modelled; a
  line is its kind and the values it is formatted from. \<open>NoneFound\<close> carries the
  \<open>format\<close> values of the resources in order (the script prints them upper-cased,
  sorted and without repetitions).
\<close>

datatype msg =
    RetryFailed int int pystr error
  | Progress pystr nat int
  | ProgressEnd
  | Saved path nat
  | Querying pystr
  | NoneFound "pystr list"
  | FoundFor pystr
  | Item pystr pystr
  | FoundCount nat path
  | NoUrl nat "pystr option"
  | Downloading nat nat pystr
  | UrlLine pystr
  | Failed error
  | Done
  | NoDatasets
  | DatasetHeader nat nat "pystr option" "pystr option"
  | FetchFailed error
  | NoResources
  | ResourceLine pystr pystr pystr
  | CsvExported pystr
  | NothingToExport

text \<open>
  What the script does to the outside world besides the file system, in order.
  \<open>Attempt\<close> marks the call of the single-attempt downloader at line 246, \<open>Printed\<close>
  is one line of output, \<open>Slept\<close> is one \<open>time.sleep\<close>.
\<close>

datatype 't event =
    Attempt pystr
  | Printed msg
  | Slept 't

record 't io =
  trace :: "'t event list"

definition emit :: "'t event \<Rightarrow> ('t, 'z) io_scheme \<Rightarrow> ('t, 'z) io_scheme" where
  "emit e w = w\<lparr>trace := trace w @ [e]\<rparr>"

section \<open>The retry wrapper\<close>

text \<open>
  \<open>download_with_retry\<close> (lines 240-253). The \<open>for attempt in range(1, retry + 1)\<close> loop
  is the recursion over the list of attempt numbers. It is left either by the \<open>return\<close>
  inside the \<open>try\<close> or by exhausting the range, and then it hands the variable
  \<open>last_err\<close> to the code after the loop. The single-attempt downloader \<open>ds\<close> is the
  call \<open>download_stream(url, dest_dir, name_hint, timeout_s)\<close> with its arguments
  applied: it takes the world and gives a path or an exception, and the world after it.
\<close>

datatype ('p, 'e) loop_exit = Returned 'p | Completed "'e option"

fun retry_loop ::
  "(('t, 'z) io_scheme \<Rightarrow> (error + 'p) \<times> ('t, 'z) io_scheme) \<Rightarrow>
   pystr \<Rightarrow> int \<Rightarrow> 't \<Rightarrow> int list \<Rightarrow> error option \<Rightarrow>
   ('t, 'z) io_scheme \<Rightarrow> ('p, error) loop_exit \<times> ('t, 'z) io_scheme" where
  "retry_loop ds url retry sleep_between [] last_err w = (Completed last_err, w)"
| "retry_loop ds url retry sleep_between (attempt # rest) last_err w =
     (case ds (emit (Attempt url) w) of
        (Inr p, w1) \<Rightarrow> (Returned p, w1)
      | (Inl e, w1) \<Rightarrow>
          (let w2 = emit (Printed (RetryFailed attempt retry url e)) w1;
               w3 = (if attempt < retry then emit (Slept sleep_between) w2 else w2)
           in retry_loop ds url retry sleep_between rest (Some e) w3))"

text \<open>After the loop: \<open>assert last_err is not None\<close>, then \<open>raise last_err\<close>.\<close>

definition download_with_retry ::
  "(('t, 'z) io_scheme \<Rightarrow> (error + 'p) \<times> ('t, 'z) io_scheme) \<Rightarrow>
   pystr \<Rightarrow> int \<Rightarrow> 't \<Rightarrow>
   ('t, 'z) io_scheme \<Rightarrow> (error + 'p) \<times> ('t, 'z) io_scheme" where
  "download_with_retry ds url retry sleep_between w =
     (case retry_loop ds url retry sleep_between [1..retry] None w of
        (Returned p, w') \<Rightarrow> (Inr p, w')
      | (Completed None, w') \<Rightarrow> (Inl AssertionError, w')
      | (Completed (Some e), w') \<Rightarrow> (Inl e, w'))"

text \<open>Observations on a trace: how often the downloader was invoked, how many failures
  the wrapper reported, and the sleeps it performed, in order.\<close>

fun is_attempt :: "'t event \<Rightarrow> bool" where
  "is_attempt (Attempt u) = True"
| "is_attempt e = False"

fun is_retry_failed :: "'t event \<Rightarrow> bool" where
  "is_retry_failed (Printed (RetryFailed a r u e)) = True"
| "is_retry_failed e = False"

fun slept_of :: "'t event \<Rightarrow> 't list" where
  "slept_of (Slept d) = [d]"
| "slept_of e = []"

definition n_attempts :: "('t, 'z) io_scheme \<Rightarrow> nat" where
  "n_attempts w = length (filter is_attempt (trace w))"

definition n_failures :: "('t, 'z) io_scheme \<Rightarrow> nat" where
  "n_failures w = length (filter is_retry_failed (trace w))"

definition sleeps :: "('t, 'z) io_scheme \<Rightarrow> 't list" where
  "sleeps w = concat (map slept_of (trace w))"

text \<open>A downloader is \<open>quiet\<close> when it does not itself add invocation marks, retry
  reports or sleeps to the trace (\<open>download_stream\<close> prints progress lines only).\<close>

definition quiet ::
  "(('t, 'z) io_scheme \<Rightarrow> (error + 'p) \<times> ('t, 'z) io_scheme) \<Rightarrow> bool" where
  "quiet ds \<longleftrightarrow> (\<forall>w. n_attempts (snd (ds w)) = n_attempts w
                    \<and> n_failures (snd (ds w)) = n_failures w
                    \<and> sleeps (snd (ds w)) = sleeps w)"

text \<open>A downloader whose outcome is scripted by the number of invocations so far: it
  fails (with a transport error that carries the invocation number) until invocation
  \<open>k\<close>, which yields \<open>p\<close>. It is used to exercise the wrapper on concrete runs.\<close>

definition scripted ::
  "nat \<Rightarrow> 'p \<Rightarrow> ('t, 'z) io_scheme \<Rightarrow> (error + 'p) \<times> ('t, 'z) io_scheme" where
  "scripted k p w =
     (if n_attempts w < k then (Inl (TransportError (n_attempts w)), w) else (Inr p, w))"

definition w0 :: "nat io" where
  "w0 = \<lparr>trace = []\<rparr>"

section \<open>Text helpers\<close>

text \<open>
  \<open>str.isspace\<close> for one code point, which is also what \<open>str.strip()\<close> removes and what
  \<open>\s\<close> matches in a \<open>str\<close> pattern.
\<close>

definition py_isspace :: "nat \<Rightarrow> bool" where
  "py_isspace c \<longleftrightarrow>
     (0x09 \<le> c \<and> c \<le> 0x0D) \<or> (0x1C \<le> c \<and> c \<le> 0x20) \<or> c = 0x85 \<or> c = 0xA0
     \<or> c = 0x1680 \<or> (0x2000 \<le> c \<and> c \<le> 0x200A) \<or> c = 0x2028 \<or> c = 0x2029
     \<or> c = 0x202F \<or> c = 0x205F \<or> c = 0x3000"

definition py_strip :: "pystr \<Rightarrow> pystr" where
  "py_strip s = rev (dropWhile py_isspace (rev (dropWhile py_isspace s)))"

text \<open>
  \<open>str.lower()\<close>. The case tables of the interpreter are not part of the script; the
  model lowers the ASCII letters and leaves every other code point as it is. The script
  compares lowered text with ASCII literals (\<open>xlsx\<close>, \<open>.xlsx\<close>), and no code point
  outside ASCII lowers to one of their letters.
\<close>

definition lower_cp :: "nat \<Rightarrow> nat" where
  "lower_cp c = (if 0x41 \<le> c \<and> c \<le> 0x5A then c + 0x20 else c)"

definition py_lower :: "pystr \<Rightarrow> pystr" where
  "py_lower s = map lower_cp s"

definition endswith :: "pystr \<Rightarrow> pystr \<Rightarrow> bool" where
  "endswith s suffix \<longleftrightarrow> length suffix \<le> length s \<and> drop (length s - length suffix) s = suffix"

text \<open>
  \<open>re.sub(r"[...]+", repl, s)\<close> for a character class: every maximal run of members of
  the class is replaced by one copy of \<open>repl\<close>.
\<close>

function sub_runs :: "(nat \<Rightarrow> bool) \<Rightarrow> pystr \<Rightarrow> pystr \<Rightarrow> pystr" where
  "sub_runs P repl [] = []"
| "sub_runs P repl (c # cs) =
     (if P c then repl @ sub_runs P repl (dropWhile P cs) else c # sub_runs P repl cs)"
  by pat_completeness auto
termination
  by (relation "measure (\<lambda>(P, repl, s). length s)")
     (auto simp: less_Suc_eq_le length_dropWhile_le)

subsection \<open>Percent-decoding\<close>

text \<open>UTF-8 of one code point with the \<open>ignore\<close> handler: a surrogate gives no bytes.\<close>

definition utf8_encode_cp :: "nat \<Rightarrow> pybytes" where
  "utf8_encode_cp c =
     (if c < 0x80 then [c]
      else if c < 0x800 then [0xC0 + c div 64, 0x80 + c mod 64]
      else if 0xD800 \<le> c \<and> c < 0xE000 then []
      else if c < 0x10000 then [0xE0 + c div 4096, 0x80 + c div 64 mod 64, 0x80 + c mod 64]
      else [0xF0 + c div 262144, 0x80 + c div 4096 mod 64, 0x80 + c div 64 mod 64,
            0x80 + c mod 64])"

definition is_cont :: "nat \<Rightarrow> bool" where
  "is_cont b \<longleftrightarrow> 0x80 \<le> b \<and> b < 0xC0"

text \<open>
  \<open>bytes.decode("utf-8", "replace")\<close>: an invalid start byte gives one U+FFFD, a wrong
  continuation byte gives one U+FFFD for the bytes before it, and a sequence cut off by
  the end of the data gives one U+FFFD for all that is left.
\<close>

fun utf8_decode :: "pybytes \<Rightarrow> pystr" where
  "utf8_decode [] = []"
| "utf8_decode (b # bs) =
     (if b < 0x80 then b # utf8_decode bs
      else if b < 0xC2 then 0xFFFD # utf8_decode bs
      else if b < 0xE0 then
        (case bs of
           [] \<Rightarrow> [0xFFFD]
         | b2 # r2 \<Rightarrow>
             if is_cont b2 then ((b - 0xC0) * 64 + (b2 - 0x80)) # utf8_decode r2
             else 0xFFFD # utf8_decode bs)
      else if b < 0xF0 then
        (case bs of
           [] \<Rightarrow> [0xFFFD]
         | b2 # r2 \<Rightarrow>
             if \<not> is_cont b2 \<or> (if b2 < 0xA0 then b = 0xE0 else b = 0xED)
             then 0xFFFD # utf8_decode bs
             else (case r2 of
                     [] \<Rightarrow> [0xFFFD]
                   | b3 # r3 \<Rightarrow>
                       if is_cont b3
                       then ((b - 0xE0) * 4096 + (b2 - 0x80) * 64 + (b3 - 0x80)) # utf8_decode r3
                       else 0xFFFD # utf8_decode r2))
      else if b < 0xF5 then
        (case bs of
           [] \<Rightarrow> [0xFFFD]
         | b2 # r2 \<Rightarrow>
             if \<not> is_cont b2 \<or> (if b2 < 0x90 then b = 0xF0 else b = 0xF4)
             then 0xFFFD # utf8_decode bs
             else (case r2 of
                     [] \<Rightarrow> [0xFFFD]
                   | b3 # r3 \<Rightarrow>
                       if \<not> is_cont b3 then 0xFFFD # utf8_decode r2
                       else (case r3 of
                               [] \<Rightarrow> [0xFFFD]
                             | b4 # r4 \<Rightarrow>
                                 if is_cont b4
                                 then ((b - 0xF0) * 262144 + (b2 - 0x80) * 4096
                                        + (b3 - 0x80) * 64 + (b4 - 0x80)) # utf8_decode r4
                                 else 0xFFFD # utf8_decode r3)))
      else 0xFFFD # utf8_decode bs)"

text \<open>
  \<open>int(hexpart, 16)\<close> for the two-character slice \<open>s[i+1:i+3]\<close>. Python's \<open>int\<close>
  accepts more than two hexadecimal digits: blanks around the number and a sign before it.
  A code point outside ASCII is first turned into a blank when it is whitespace; decimal
  digits of other scripts, which the interpreter would also accept, are not modelled and
  count as invalid. \<open>None\<close> is \<open>ValueError\<close>.
\<close>

definition hexval :: "nat \<Rightarrow> int option" where
  "hexval c =
     (if 0x30 \<le> c \<and> c \<le> 0x39 then Some (int c - 0x30)
      else if 0x41 \<le> c \<and> c \<le> 0x46 then Some (int c - 0x41 + 10)
      else if 0x61 \<le> c \<and> c \<le> 0x66 then Some (int c - 0x61 + 10)
      else None)"

definition int_blank :: "nat \<Rightarrow> bool" where
  "int_blank c \<longleftrightarrow> (0x09 \<le> c \<and> c \<le> 0x0D) \<or> c = 0x20 \<or> (127 \<le> c \<and> py_isspace c)"

definition int_base16 :: "nat \<Rightarrow> nat \<Rightarrow> int option" where
  "int_base16 a b =
     (case (hexval a, hexval b) of
        (Some x, Some y) \<Rightarrow> Some (16 * x + y)
      | (Some x, None) \<Rightarrow> (if int_blank b then Some x else None)
      | (None, Some y) \<Rightarrow>
          (if int_blank a \<or> a = 0x2B then Some y
           else if a = 0x2D then Some (- y)
           else None)
      | (None, None) \<Rightarrow> None)"

text \<open>
  The \<open>while\<close> loop of \<open>pct_decode\<close> (lines 97-109), on the part of \<open>s\<close> from index \<open>i\<close>
  on. \<open>i + 2 < len(s)\<close> says that two more characters follow the \<open>%\<close>.
  \<open>bytearray.append\<close> raises \<open>ValueError\<close>, which the \<open>except\<close> clause also catches, for
  a value outside \<open>range(256)\<close>.
\<close>

fun pct_bytes :: "pystr \<Rightarrow> pybytes" where
  "pct_bytes (ch # h1 # h2 # rest) =
     (if ch = 0x25 then
        (case int_base16 h1 h2 of
           Some v \<Rightarrow>
             if 0 \<le> v \<and> v < 256 then nat v # pct_bytes rest
             else utf8_encode_cp ch @ pct_bytes (h1 # h2 # rest)
         | None \<Rightarrow> utf8_encode_cp ch @ pct_bytes (h1 # h2 # rest))
      else utf8_encode_cp ch @ pct_bytes (h1 # h2 # rest))"
| "pct_bytes (ch # rest) = utf8_encode_cp ch @ pct_bytes rest"
| "pct_bytes [] = []"

definition pct_decode :: "pystr \<Rightarrow> pystr" where
  "pct_decode s = (if s = [] \<or> 0x25 \<notin> set s then s else utf8_decode (pct_bytes s))"

subsection \<open>Sanitizing a file name\<close>

text \<open>The class of the first \<open>re.sub\<close> at line 115: backslash, slash, colon, asterisk,
  question mark, double quote, less-than, greater-than, bar, CR, LF and TAB.\<close>

definition unsafe_char :: "nat \<Rightarrow> bool" where
  "unsafe_char c \<longleftrightarrow>
     c \<in> {0x5C, 0x2F, 0x3A, 0x2A, 0x3F, 0x22, 0x3C, 0x3E, 0x7C, 0x0D, 0x0A, 0x09}"

definition str_replace :: "nat \<Rightarrow> nat \<Rightarrow> pystr \<Rightarrow> pystr" where
  "str_replace old new s = map (\<lambda>c. if c = old then new else c) s"

definition sanitize_filename :: "pystr \<Rightarrow> pystr" where
  "sanitize_filename name0 =
     (let name1 = sub_runs unsafe_char (py ''_'') (py_strip name0);
          name2 = py_strip (sub_runs py_isspace (py '' '') name1);
          name3 = str_replace 0x20 0x5F name2
      in if name3 = [] then py ''arquivo'' else name3)"


section \<open>Resource filters\<close>

text \<open>
  A resource (and a dataset summary) is a \<open>dict\<close> of the decoded JSON. The script reads
  string fields from it with \<open>.get\<close>; the model keeps the string-valued fields, a key
  that is absent or \<open>null\<close> being \<open>None\<close>. Documents in which a consumed field holds
  another kind of value (on which the script raises \<open>AttributeError\<close>), or in which an
  entry of a list of resources is not an object, are outside the model.
\<close>

type_synonym pydict = "pystr \<rightharpoonup> pystr"

fun dict_of :: "json \<Rightarrow> pydict" where
  "dict_of (JObj kvs) = (\<lambda>k. case map_of kvs k of Some (JStr s) \<Rightarrow> Some s | _ \<Rightarrow> None)"
| "dict_of j = Map.empty"

text \<open>\<open>x or y\<close> on values that are a string or \<open>None\<close>: \<open>x\<close> when it is truthy (a
  non-empty string), else \<open>y\<close>. \<open>or_str\<close> is the case where \<open>y\<close> is a string literal.\<close>

fun py_or :: "pystr option \<Rightarrow> pystr option \<Rightarrow> pystr option" where
  "py_or (Some (c # cs)) y = Some (c # cs)"
| "py_or x y = y"

fun or_str :: "pystr option \<Rightarrow> pystr \<Rightarrow> pystr" where
  "or_str (Some (c # cs)) d = c # cs"
| "or_str x d = d"

definition is_xlsx_resource :: "pydict \<Rightarrow> bool" where
  "is_xlsx_resource res =
     (let fmt = py_lower (py_strip (or_str (res (py ''format'')) []));
          url = py_lower (py_strip
                  (or_str (py_or (res (py ''url'')) (res (py ''download_url''))) []))
      in fmt = py ''xlsx'' \<or> endswith url (py ''.xlsx''))"

definition res_pretty_name :: "pydict \<Rightarrow> pystr" where
  "res_pretty_name res =
     or_str (py_or (res (py ''name'')) (py_or (res (py ''description'')) (res (py ''id''))))
       (py ''arquivo'')"

definition res_url :: "pydict \<Rightarrow> pystr" where
  "res_url res = or_str (py_or (res (py ''url'')) (res (py ''download_url''))) []"



section \<open>Guessing the file name\<close>

text \<open>
  The pattern \<open>_cd_fname_re\<close> (line 177), matched as a backtracking matcher does: every
  step maps a position (the text that is left) to the positions at which matching can go
  on, the preferred one first. Under \<open>re.IGNORECASE\<close> a letter of the pattern matches its
  two ASCII forms, and \<open>i\<close> also matches U+0130 and U+0131.
\<close>

definition ci_char :: "nat \<Rightarrow> nat \<Rightarrow> bool" where
  "ci_char p c \<longleftrightarrow> lower_cp c = p \<or> (p = 0x69 \<and> (c = 0x130 \<or> c = 0x131))"

fun lit_ci :: "pystr \<Rightarrow> pystr \<Rightarrow> pystr list" where
  "lit_ci [] s = [s]"
| "lit_ci (p # ps) [] = []"
| "lit_ci (p # ps) (c # cs) = (if ci_char p c then lit_ci ps cs else [])"

definition opt :: "(pystr \<Rightarrow> pystr list) \<Rightarrow> pystr \<Rightarrow> pystr list" where
  "opt m s = m s @ [s]"

definition token_char :: "nat \<Rightarrow> bool" where
  "token_char c \<longleftrightarrow> c \<noteq> 0x22 \<and> c \<noteq> 0x3B"

text \<open>Group 1 is \<open>[^";]+\<close>: greedy, and what follows it in the pattern can match the
  empty text, so the group is the longest run of token characters, and it must not be
  empty. \<open>cd_match\<close> is a match attempt at one position, \<open>cd_search\<close> is \<open>.search\<close>,
  which takes the leftmost position with a match.\<close>

definition cd_match :: "pystr \<Rightarrow> pystr option" where
  "cd_match s =
     (let starts = concat (map (opt (lit_ci [0x22]))
                   (concat (map (opt (lit_ci (py ''utf-8'' @ [0x27, 0x27])))
                   (concat (map (lit_ci (py ''=''))
                   (concat (map (opt (lit_ci (py ''*'')))
                   (lit_ci (py ''filename'') s))))))))
      in case filter (\<lambda>g. g \<noteq> []) (map (takeWhile token_char) starts) of
           [] \<Rightarrow> None
         | g # gs \<Rightarrow> Some g)"

fun cd_search :: "pystr \<Rightarrow> pystr option" where
  "cd_search [] = cd_match []"
| "cd_search (c # cs) =
     (case cd_match (c # cs) of Some g \<Rightarrow> Some g | None \<Rightarrow> cd_search cs)"

text \<open>\<open>resp.headers.get(name, default)\<close> of httpx: the names are compared in lower
  case, and the values of a repeated header are joined with a comma and a blank.\<close>

fun join_values :: "pystr list \<Rightarrow> pystr" where
  "join_values [] = []"
| "join_values [v] = v"
| "join_values (v # vs) = v @ py '', '' @ join_values vs"

definition headers_get :: "(pystr \<times> pystr) list \<Rightarrow> pystr \<Rightarrow> pystr option" where
  "headers_get hs name =
     (case map snd (filter (\<lambda>(k, v). py_lower k = py_lower name) hs) of
        [] \<Rightarrow> None
      | vs \<Rightarrow> Some (join_values vs))"

text \<open>\<open>pathlib.Path(path).name\<close> on a POSIX system: the last component of the path,
  where empty components and \<open>.\<close> components do not count; the empty string when there
  is none.\<close>

fun split_on :: "nat \<Rightarrow> pystr \<Rightarrow> pystr list" where
  "split_on sep [] = [[]]"
| "split_on sep (c # cs) =
     (if c = sep then [] # split_on sep cs
      else (case split_on sep cs of [] \<Rightarrow> [[c]] | x # xs \<Rightarrow> (c # x) # xs))"

definition path_parts :: "pystr \<Rightarrow> pystr list" where
  "path_parts p = filter (\<lambda>c. c \<noteq> [] \<and> c \<noteq> py ''.'') (split_on 0x2F p)"

definition path_name :: "pystr \<Rightarrow> pystr" where
  "path_name p = (case path_parts p of [] \<Rightarrow> [] | cs \<Rightarrow> last cs)"

text \<open>
  An HTTP response as the script uses it: the status code, the headers, the final URL
  (\<open>resp.url\<close>; \<open>None\<close> stands for a falsy value), the outcome of \<open>r.json()\<close> (\<open>None\<close>
  when the body is not JSON), the chunks that \<open>iter_bytes\<close> yields and the exception that
  ends the stream early, if any.
\<close>

record response =
  status_code :: int
  resp_headers :: "(pystr \<times> pystr) list"
  resp_url :: "pystr option"
  json_body :: "json option"
  body_chunks :: "pybytes list"
  stream_error :: "error option"

text \<open>
  \<open>guess_filename\<close> (lines 179-204). \<open>content_disposition\<close> is line 181.
  \<open>url_file_name\<close> is what the \<open>try\<close> block of step 2 finds: \<open>url_path u\<close> stands for
  \<open>httpx.URL(u).path\<close>, which belongs to the HTTP library (the path of the URL, or
  \<open>None\<close> when the library raises), and the file name is the last component of that
  path, if it has one.
\<close>

definition content_disposition :: "response \<Rightarrow> pystr" where
  "content_disposition resp =
     (case headers_get (resp_headers resp) (py ''content-disposition'') of
        None \<Rightarrow> [] | Some v \<Rightarrow> v)"

definition url_file_name ::
  "(pystr \<Rightarrow> pystr option) \<Rightarrow> response \<Rightarrow> pystr \<Rightarrow> pystr option" where
  "url_file_name url_path resp fallback_url =
     (case url_path (case resp_url resp of Some u \<Rightarrow> u | None \<Rightarrow> fallback_url) of
        None \<Rightarrow> None
      | Some p \<Rightarrow> if p \<noteq> [] \<and> path_name p \<noteq> [] then Some (path_name p) else None)"

definition guess_filename ::
  "(pystr \<Rightarrow> pystr option) \<Rightarrow> response \<Rightarrow> pystr \<Rightarrow> pystr option \<Rightarrow> pystr" where
  "guess_filename url_path resp fallback_url name_hint =
     (case cd_search (content_disposition resp) of
        Some g \<Rightarrow> sanitize_filename (pct_decode g)
      | None \<Rightarrow>
         (case url_file_name url_path resp fallback_url of
            Some fn \<Rightarrow> sanitize_filename (pct_decode fn)
          | None \<Rightarrow>
             (case name_hint of
                Some (c # cs) \<Rightarrow>
                  (let fn = sanitize_filename (c # cs)
                   in if \<not> endswith (py_lower fn) (py ''.xlsx'')
                      then fn @ py ''.xlsx'' else fn)
              | _ \<Rightarrow> py ''arquivo.xlsx'')))"

section \<open>The world: network and file system\<close>

text \<open>
  One row of the CSV export (lines 353-361) and the content of a file: bytes, or the
  header and rows handed to \<open>csv.DictWriter\<close>, whose formatting is not modelled.
\<close>

record csv_row =
  dataset_title :: "pystr option"
  dataset_name :: "pystr option"
  dataset_id :: "pystr option"
  resource_name :: pystr
  resource_format :: pystr
  resource_url :: pystr
  resource_id :: "pystr option"

datatype content = Bytes pybytes | Csv "pystr list" "csv_row list"

datatype node = Dir | File content

text \<open>
  A request: \<open>client.get(url, params=params)\<close> or \<open>httpx.stream("GET", url)\<close>. The
  network answers the \<open>n\<close>-th request of a run with an exception of the transport or with
  a response; redirects are followed inside the library.
\<close>

datatype request = Get pystr "(pystr \<times> json) list" | Stream pystr

record 't world = "'t io" +
  files :: "path \<rightharpoonup> node"
  net :: "nat \<Rightarrow> request \<Rightarrow> error + response"
  sent :: nat

definition http ::
  "request \<Rightarrow> ('t, 'z) world_scheme \<Rightarrow> (error + response) \<times> ('t, 'z) world_scheme" where
  "http req w = (net w (sent w) req, w\<lparr>sent := sent w + 1\<rparr>)"

text \<open>\<open>raise_for_status\<close> of httpx passes the codes 200 to 299.\<close>

definition is_success :: "int \<Rightarrow> bool" where
  "is_success code \<longleftrightarrow> 200 \<le> code \<and> code \<le> 299"

text \<open>
  The file system is a map from absolute paths to directories and files. A \<open>..\<close>
  component steps back to the parent (there are no symbolic links). The operations fail
  as the operating system does when a file is where a directory is needed or the other
  way round; failures of the device (no space, no permission) are not modelled.
\<close>

definition norm_path :: "path \<Rightarrow> path" where
  "norm_path p = foldl (\<lambda>acc c. if c = py ''..'' then butlast acc else acc @ [c]) [] p"

fun is_file :: "node option \<Rightarrow> bool" where
  "is_file (Some (File c)) = True"
| "is_file n = False"

definition ancestors :: "path \<Rightarrow> path list" where
  "ancestors p = map (\<lambda>n. take n p) [0..<length p]"

text \<open>\<open>Path.mkdir(parents=True, exist_ok=True)\<close>.\<close>

definition mkdir_p :: "path \<Rightarrow> (path \<rightharpoonup> node) \<Rightarrow> error + (path \<rightharpoonup> node)" where
  "mkdir_p d0 fs =
     (let d = norm_path d0 in
      if is_file (fs d) then Inl FileExistsError
      else if list_ex (\<lambda>p. is_file (fs p)) (ancestors d) then Inl NotADirectoryError
      else Inr (\<lambda>p. if p = d \<or> p \<in> set (ancestors d) then Some Dir else fs p))"

text \<open>\<open>open(path, "wb")\<close> (and \<open>"w"\<close>): the file is created or truncated.\<close>

definition open_w :: "path \<Rightarrow> content \<Rightarrow> (path \<rightharpoonup> node) \<Rightarrow> error + (path \<rightharpoonup> node)" where
  "open_w p0 initial fs =
     (let p = norm_path p0 in
      if p = [] \<or> fs p = Some Dir then Inl IsADirectoryError
      else if is_file (fs (butlast p)) then Inl NotADirectoryError
      else if fs (butlast p) \<noteq> Some Dir then Inl FileNotFoundError
      else Inr (fs(p \<mapsto> File initial)))"

text \<open>\<open>f.write(chunk)\<close> on the file opened at \<open>p\<close>.\<close>

definition append_bytes :: "path \<Rightarrow> pybytes \<Rightarrow> (path \<rightharpoonup> node) \<Rightarrow> (path \<rightharpoonup> node)" where
  "append_bytes p0 chunk fs =
     (case fs (norm_path p0) of
        Some (File (Bytes old)) \<Rightarrow> fs(norm_path p0 \<mapsto> File (Bytes (old @ chunk)))
      | _ \<Rightarrow> fs)"

text \<open>\<open>Path.replace\<close>: an atomic rename that overwrites a file at the target.\<close>

definition replace :: "path \<Rightarrow> path \<Rightarrow> (path \<rightharpoonup> node) \<Rightarrow> error + (path \<rightharpoonup> node)" where
  "replace src0 dst0 fs =
     (let src = norm_path src0; dst = norm_path dst0 in
      case fs src of
        None \<Rightarrow> Inl FileNotFoundError
      | Some n \<Rightarrow>
          if dst = [] \<or> fs dst = Some Dir then Inl IsADirectoryError
          else if is_file (fs (butlast dst)) then Inl NotADirectoryError
          else if fs (butlast dst) \<noteq> Some Dir then Inl FileNotFoundError
          else Inr ((fs(src := None))(dst \<mapsto> n)))"

text \<open>
  \<open>dest_dir / filename\<close> of pathlib: the components of \<open>filename\<close> are appended, and a
  \<open>.\<close> component is dropped. \<open>out_path.with_suffix(out_path.suffix + ".part")\<close> appends
  \<open>.part\<close> to the last component and raises \<open>ValueError\<close> when there is none.
\<close>

definition path_join :: "path \<Rightarrow> pystr \<Rightarrow> path" where
  "path_join d name = d @ path_parts name"

definition with_part :: "path \<Rightarrow> error + path" where
  "with_part p = (case rev p of [] \<Rightarrow> Inl ValueError | n # r \<Rightarrow> Inr (rev r @ [n @ py ''.part'']))"

section \<open>The streaming downloader\<close>

text \<open>
  \<open>int(text)\<close> in base ten, for \<open>int(r.headers.get("content-length") or 0)\<close>: blanks
  around the number, a sign, digits, and single underscores between digits. As for
  \<open>int_base16\<close>, digits of other scripts are not modelled. \<open>None\<close> is \<open>ValueError\<close>.
\<close>

definition is_digit :: "nat \<Rightarrow> bool" where
  "is_digit c \<longleftrightarrow> 0x30 \<le> c \<and> c \<le> 0x39"

fun digits_ok :: "pystr \<Rightarrow> bool" where
  "digits_ok [] = False"
| "digits_ok [c] = is_digit c"
| "digits_ok (c # d # cs) =
     (is_digit c \<and> (if d = 0x5F then digits_ok cs else digits_ok (d # cs)))"

definition digits_value :: "pystr \<Rightarrow> int" where
  "digits_value s = foldl (\<lambda>a c. if c = 0x5F then a else 10 * a + (int c - 0x30)) 0 s"

definition py_int10 :: "pystr \<Rightarrow> int option" where
  "py_int10 s0 =
     (let s = rev (dropWhile int_blank (rev (dropWhile int_blank s0)));
          (sign, ds) = (case s of
                          c # cs \<Rightarrow> if c = 0x2B then (1, cs) else if c = 0x2D then (- 1, cs)
                                    else (1, s)
                        | [] \<Rightarrow> (1, s))
      in if digits_ok ds then Some (sign * digits_value ds) else None)"

definition content_length :: "response \<Rightarrow> int option" where
  "content_length resp =
     (case headers_get (resp_headers resp) (py ''content-length'') of
        None \<Rightarrow> Some 0
      | Some [] \<Rightarrow> Some 0
      | Some v \<Rightarrow> py_int10 v)"

text \<open>The loop over \<open>r.iter_bytes\<close> (lines 223-230), with the counter \<open>downloaded\<close>.\<close>

fun write_chunks ::
  "pystr \<Rightarrow> int \<Rightarrow> path \<Rightarrow> pybytes list \<Rightarrow> nat \<Rightarrow> ('t, 'z) world_scheme \<Rightarrow>
   nat \<times> ('t, 'z) world_scheme" where
  "write_chunks filename total_len tmp_path [] downloaded w = (downloaded, w)"
| "write_chunks filename total_len tmp_path (chunk # rest) downloaded w =
     (let w1 = w\<lparr>files := append_bytes tmp_path chunk (files w)\<rparr>;
          downloaded1 = downloaded + length chunk;
          w2 = (if total_len \<noteq> 0 then emit (Printed (Progress filename downloaded1 total_len)) w1
                else w1)
      in write_chunks filename total_len tmp_path rest downloaded1 w2)"

text \<open>
  \<open>download_stream\<close> (lines 210-237). The timeout is an argument of the requests and has
  no part in the model. An exception leaves the \<open>with\<close> blocks at once: what was done
  to the world before it stays done. \<open>save_body\<close> is lines 219-237, from the reading of
  the length to the \<open>return\<close>.
\<close>

definition save_body ::
  "response \<Rightarrow> pystr \<Rightarrow> path \<Rightarrow> path \<Rightarrow> ('t, 'z) world_scheme \<Rightarrow>
   (error + path) \<times> ('t, 'z) world_scheme" where
  "save_body r filename out_path tmp_path w =
     (case content_length r of
        None \<Rightarrow> (Inl ValueError, w)
      | Some total_len \<Rightarrow>
         (case open_w tmp_path (Bytes []) (files w) of
            Inl e \<Rightarrow> (Inl e, w)
          | Inr fs1 \<Rightarrow>
             (case write_chunks filename total_len tmp_path (body_chunks r) 0
                     (w\<lparr>files := fs1\<rparr>) of
                (downloaded, w1) \<Rightarrow>
                  (case stream_error r of
                     Some e \<Rightarrow> (Inl e, w1)
                   | None \<Rightarrow>
                      (case replace tmp_path out_path (files w1) of
                         Inl e \<Rightarrow> (Inl e, w1)
                       | Inr fs2 \<Rightarrow>
                          (let w2 = w1\<lparr>files := fs2\<rparr>;
                               w3 = (if total_len \<noteq> 0 then emit (Printed ProgressEnd) w2
                                     else w2)
                           in (Inr out_path,
                               emit (Printed (Saved out_path downloaded)) w3)))))))"

definition download_stream ::
  "(pystr \<Rightarrow> pystr option) \<Rightarrow> pystr \<Rightarrow> path \<Rightarrow> pystr option \<Rightarrow> ('t, 'z) world_scheme \<Rightarrow>
   (error + path) \<times> ('t, 'z) world_scheme" where
  "download_stream url_path url dest_dir name_hint w =
     (case mkdir_p dest_dir (files w) of
        Inl e \<Rightarrow> (Inl e, w)
      | Inr fs1 \<Rightarrow>
         (case http (Stream url) (w\<lparr>files := fs1\<rparr>) of
            (Inl e, w2) \<Rightarrow> (Inl e, w2)
          | (Inr r, w2) \<Rightarrow>
             if \<not> is_success (status_code r) then (Inl (HTTPStatusError (status_code r)), w2)
             else
               (let filename = guess_filename url_path r url name_hint;
                    out_path = path_join dest_dir filename
                in case with_part out_path of
                     Inl e \<Rightarrow> (Inl e, w2)
                   | Inr tmp_path \<Rightarrow> save_body r filename out_path tmp_path w2)))"

section \<open>The CKAN client\<close>

text \<open>Truthiness of a decoded JSON value, and \<open>data.get(key)\<close>, which exists on a
  \<open>dict\<close> only.\<close>

fun py_truthy :: "json \<Rightarrow> bool" where
  "py_truthy JNull = False"
| "py_truthy (JBool b) = b"
| "py_truthy (JInt i) = (i \<noteq> 0)"
| "py_truthy (JFloat x) = (x \<noteq> 0)"
| "py_truthy (JStr s) = (s \<noteq> [])"
| "py_truthy (JArr xs) = (xs \<noteq> [])"
| "py_truthy (JObj kvs) = (kvs \<noteq> [])"

fun obj_get :: "json \<Rightarrow> pystr \<Rightarrow> error + json option" where
  "obj_get (JObj kvs) k = Inr (map_of kvs k)"
| "obj_get j k = Inl AttributeError"

text \<open>
  \<open>ckan_call\<close> (lines 138-146). \<open>ckan_result\<close> is what the function makes of the answer
  of the network: \<open>raise_for_status\<close>, \<open>r.json()\<close>, the test of \<open>success\<close> and the
  lookup of \<open>result\<close>.
\<close>

definition ckan_result :: "pystr \<Rightarrow> error + response \<Rightarrow> error + json" where
  "ckan_result action answer =
     (case answer of
        Inl e \<Rightarrow> Inl e
      | Inr r \<Rightarrow>
          if \<not> is_success (status_code r) then Inl (HTTPStatusError (status_code r))
          else (case json_body r of
                  None \<Rightarrow> Inl JSONDecodeError
                | Some data \<Rightarrow>
                   (case obj_get data (py ''success'') of
                      Inl e \<Rightarrow> Inl e
                    | Inr success \<Rightarrow>
                        if \<not> (case success of None \<Rightarrow> False | Some v \<Rightarrow> py_truthy v)
                        then Inl (RuntimeError action data)
                        else (case obj_get data (py ''result'') of
                                Inl e \<Rightarrow> Inl e
                              | Inr None \<Rightarrow> Inl (KeyError (py ''result''))
                              | Inr (Some v) \<Rightarrow> Inr v))))"

definition ckan_call ::
  "pystr \<Rightarrow> pystr \<Rightarrow> (pystr \<times> json) list \<Rightarrow> ('t, 'z) world_scheme \<Rightarrow>
   (error + json) \<times> ('t, 'z) world_scheme" where
  "ckan_call base action params w =
     (case http (Get (base @ py ''/api/3/action/'' @ action) params) w of
        (answer, w1) \<Rightarrow> (ckan_result action answer, w1))"

text \<open>The identifier can be \<open>None\<close> when \<open>action_list_group\<close> passes \<open>ds_id or ds_name\<close>.\<close>

definition ckan_package_show ::
  "pystr \<Rightarrow> pystr option \<Rightarrow> ('t, 'z) world_scheme \<Rightarrow> (error + json) \<times> ('t, 'z) world_scheme" where
  "ckan_package_show base dataset_id_or_slug w =
     ckan_call base (py ''package_show'')
       [(py ''id'', case dataset_id_or_slug of None \<Rightarrow> JNull | Some i \<Rightarrow> JStr i)] w"


section \<open>The operations\<close>

text \<open>
  \<open>result.get("resources", [])\<close> as a list of resources. A value that is not a list is
  outside the model, which raises \<open>TypeError\<close> for it.
\<close>

definition resources_of :: "json \<Rightarrow> error + pydict list" where
  "resources_of result =
     (case obj_get result (py ''resources'') of
        Inl e \<Rightarrow> Inl e
      | Inr None \<Rightarrow> Inr []
      | Inr (Some (JArr xs)) \<Rightarrow> Inr (map dict_of xs)
      | Inr (Some v) \<Rightarrow> Inl TypeError)"


definition rstrip_slash :: "pystr \<Rightarrow> pystr" where
  "rstrip_slash s = rev (dropWhile (\<lambda>c. c = 0x2F) (rev s))"



text \<open>
  The loop of \<open>action_download_dataset_xlsx\<close> (lines 296-308) over the XLSX resources
  that are left, \<open>i\<close> being the number of the next one and \<open>n\<close> their total. The
  \<open>try\<close> around \<open>download_with_retry\<close> turns an exception into one line of output.
  \<open>res_pretty_name\<close> never gives the empty string, so the alternative name of line
  298 is never taken.
\<close>

fun download_loop ::
  "(pystr \<Rightarrow> pystr option) \<Rightarrow> path \<Rightarrow> int \<Rightarrow> 't \<Rightarrow> nat \<Rightarrow> nat \<Rightarrow> pydict list \<Rightarrow>
   ('t, 'z) world_scheme \<Rightarrow> ('t, 'z) world_scheme" where
  "download_loop url_path out_dir retry sleep_between n i [] w = w"
| "download_loop url_path out_dir retry sleep_between n i (r # rs) w =
     (let u = res_url r;
          name = res_pretty_name r
      in if u = [] then
           download_loop url_path out_dir retry sleep_between n (i + 1) rs
             (emit (Printed (NoUrl i (r (py ''id'')))) w)
         else
           (let w1 = emit (Printed (UrlLine u)) (emit (Printed (Downloading i n name)) w)
            in case download_with_retry (download_stream url_path u out_dir (Some name))
                      u retry sleep_between w1 of
                 (Inr p, w2) \<Rightarrow>
                   download_loop url_path out_dir retry sleep_between n (i + 1) rs w2
               | (Inl e, w2) \<Rightarrow>
                   download_loop url_path out_dir retry sleep_between n (i + 1) rs
                     (emit (Printed (Failed e)) w2)))"


text \<open>\<open>action_list_dataset_xlsx\<close> (lines 259-275).\<close>

definition action_list_dataset_xlsx ::
  "pystr \<Rightarrow> pystr \<Rightarrow> ('t, 'z) world_scheme \<Rightarrow> (error + int) \<times> ('t, 'z) world_scheme" where
  "action_list_dataset_xlsx base0 dataset w =
     (case ckan_package_show (rstrip_slash base0) (Some dataset) w of
        (Inl e, w1) \<Rightarrow> (Inl e, w1)
      | (Inr result, w1) \<Rightarrow>
         (case resources_of result of
            Inl e \<Rightarrow> (Inl e, w1)
          | Inr resources \<Rightarrow>
             (let xlsx = filter is_xlsx_resource resources
              in if xlsx = [] then
                   (Inr 0, emit (Printed (NoneFound
                              (map (\<lambda>r. or_str (r (py ''format'')) []) resources))) w1)
                 else
                   (Inr 0, foldl (\<lambda>v r. emit (Printed (Item (res_pretty_name r) (res_url r))) v)
                             (emit (Printed (FoundFor dataset)) w1) xlsx))))"










definition path_after_host :: "pystr \<Rightarrow> pystr option" where
  "path_after_host u = Some (drop 8 u)"




definition world_of :: "(nat \<Rightarrow> request \<Rightarrow> error + response) \<Rightarrow> nat world" where
  "world_of answers = \<lparr>trace = [], files = [[] \<mapsto> Dir], net = answers, sent = 0\<rparr>"

definition resp_dot :: response where
  "resp_dot =
     \<lparr>status_code = 200,
      resp_headers = [(py ''content-disposition'', py ''attachment; filename='' @ [0x22, 0x2E, 0x22])],
      resp_url = Some (py ''http://h/x/b.xlsx''),
      json_body = None, body_chunks = [[1, 2], [3]], stream_error = None\<rparr>"

section \<open>Reading the output of the operations\<close>

text \<open>
  The lines that the loop of the download operation itself prints, in order, and the
  lines expected from a visit of all the resources: for each resource the notice that
  it has no URL, or its title line followed by the failure line if its download failed
  (\<open>outs\<close> holds the exception of each download, if any).
\<close>

fun loop_msg :: "msg \<Rightarrow> bool" where
  "loop_msg (NoUrl i rid) = True"
| "loop_msg (Downloading i n name) = True"
| "loop_msg (Failed e) = True"
| "loop_msg m = False"

fun printed_of :: "'t event \<Rightarrow> msg list" where
  "printed_of (Printed m) = [m]"
| "printed_of e = []"

definition printed :: "('t, 'z) io_scheme \<Rightarrow> msg list" where
  "printed w = concat (map printed_of (trace w))"

definition loop_log :: "('t, 'z) io_scheme \<Rightarrow> msg list" where
  "loop_log w = filter loop_msg (printed w)"



text \<open>The same for the group listing: the header line of each dataset, followed by
  the failure line if its resources could not be fetched.\<close>

fun group_msg :: "msg \<Rightarrow> bool" where
  "group_msg (DatasetHeader i n title name) = True"
| "group_msg (FetchFailed e) = True"
| "group_msg m = False"

definition group_log :: "('t, 'z) io_scheme \<Rightarrow> msg list" where
  "group_log w = filter group_msg (printed w)"
















section \<open>Properties of the retry wrapper\<close>

lemma n_attempts_emit [simp]:
  "n_attempts (emit e w) = n_attempts w + (if is_attempt e then 1 else 0)"
  by (simp add: n_attempts_def emit_def)

lemma n_failures_emit [simp]:
  "n_failures (emit e w) = n_failures w + (if is_retry_failed e then 1 else 0)"
  by (simp add: n_failures_def emit_def)

lemma sleeps_emit [simp]: "sleeps (emit e w) = sleeps w @ slept_of e"
  by (simp add: sleeps_def emit_def)





lemma retry_loop_completed_some:
  "retry_loop ds url retry sl xs last_err w = (Completed le, w') \<Longrightarrow>
   xs \<noteq> [] \<or> last_err \<noteq> None \<Longrightarrow> le \<noteq> None"
proof (induction xs arbitrary: last_err w)
  case Nil
  then show ?case by simp
next
  case (Cons a xs)
  obtain r w1 where d: "ds (emit (Attempt url) w) = (r, w1)" by (cases "ds (emit (Attempt url) w)")
  show ?case
  proof (cases r)
    case (Inl e)
    with Cons.prems d show ?thesis
      by (auto simp: Let_def dest!: Cons.IH split: if_splits)
  next
    case (Inr p)
    with Cons.prems d show ?thesis by simp
  qed
qed



text \<open>
  Claim C10. With \<open>retry\<close> at least one, whenever the attempt loop runs to its end the
  variable \<open>last_err\<close> holds an exception, so the assertion passes and that exception is
  raised; with \<open>retry\<close> zero or negative the downloader is never invoked, the world is
  untouched and the call fails with \<open>AssertionError\<close>.
\<close>

theorem download_with_retry_assertion:
  "(1 \<le> retry \<longrightarrow>
      (\<forall>le w'. retry_loop ds url retry sleep_between [1..retry] None w = (Completed le, w') \<longrightarrow>
         (\<exists>e. le = Some e \<and> download_with_retry ds url retry sleep_between w = (Inl e, w'))))
   \<and> (retry \<le> 0 \<longrightarrow>
        download_with_retry ds url retry sleep_between w = (Inl AssertionError, w))"
proof (intro conjI impI allI)
  fix le w'
  assume r: "1 \<le> retry"
    and c: "retry_loop ds url retry sleep_between [1..retry] None w = (Completed le, w')"
  have "[1..retry] \<noteq> []" using r by simp
  then have "le \<noteq> None" using retry_loop_completed_some[OF c] by blast
  then obtain e where "le = Some e" by auto
  then show "\<exists>e. le = Some e \<and> download_with_retry ds url retry sleep_between w = (Inl e, w')"
    using c by (simp add: download_with_retry_def)
next
  assume "retry \<le> 0"
  then have "[1..retry] = []" by simp
  then show "download_with_retry ds url retry sleep_between w = (Inl AssertionError, w)"
    by (simp add: download_with_retry_def)
qed

theorem download_with_retry_assertion_witness:
  "retry_loop (scripted 9 (py ''f'')) (py ''u'') 1 (2::nat) [1..1] None w0
     = (Completed (Some (TransportError 1)) :: (pystr, error) loop_exit,
        \<lparr>trace = [Attempt (py ''u''),
                  Printed (RetryFailed 1 1 (py ''u'') (TransportError 1))]\<rparr>)
   \<and> download_with_retry (scripted 9 (py ''f'')) (py ''u'') 1 (2::nat) w0
     = (Inl (TransportError 1) :: error + pystr,
        \<lparr>trace = [Attempt (py ''u''),
                  Printed (RetryFailed 1 1 (py ''u'') (TransportError 1))]\<rparr>)
   \<and> download_with_retry (scripted 0 (py ''f'')) (py ''u'') 0 (2::nat) w0
     = (Inl AssertionError :: error + pystr, w0)"
proof -
  have l: "retry_loop (scripted 9 (py ''f'')) (py ''u'') 1 (2::nat) [1..1] None w0
     = (Completed (Some (TransportError 1)) :: (pystr, error) loop_exit,
        \<lparr>trace = [Attempt (py ''u''),
                  Printed (RetryFailed 1 1 (py ''u'') (TransportError 1))]\<rparr>)"
    by (simp add: upto_rec1 scripted_def w0_def emit_def n_attempts_def Let_def)
  from download_with_retry_assertion
    [of 1 "scripted 9 (py ''f'')" "py ''u''" "2::nat" w0]
    download_with_retry_assertion
    [of 0 "scripted 0 (py ''f'')" "py ''u''" "2::nat" w0]
  show ?thesis using l by simp
qed


section \<open>Properties of the text helpers\<close>

lemma set_sub_runs: "set (sub_runs P repl s) \<subseteq> {c \<in> set s. \<not> P c} \<union> set repl"
proof (induction P repl s rule: sub_runs.induct)
  case (1 P repl)
  show ?case by simp
next
  case (2 P repl c cs)
  show ?case
  proof (cases "P c")
    case True
    have "set (dropWhile P cs) \<subseteq> set cs" by (auto dest: set_dropWhileD)
    with True 2(1) show ?thesis by auto
  next
    case False
    with 2(2) show ?thesis by auto
  qed
qed


lemma set_py_strip: "set (py_strip s) \<subseteq> set s"
  unfolding py_strip_def by (auto dest!: set_dropWhileD)






lemma set_str_replace:
  "old \<noteq> new \<Longrightarrow> set (str_replace old new s) \<subseteq> (set s - {old}) \<union> {new}"
  unfolding str_replace_def by auto


lemma underscore_safe: "\<not> unsafe_char 0x5F" "\<not> py_isspace 0x5F"
  by (simp_all add: unsafe_char_def py_isspace_def)


lemma py_single: "py ''_'' = [0x5F]" "py '' '' = [0x20]"
  by (simp_all add: py_def)

lemma py_arquivo: "py ''arquivo'' = [97, 114, 113, 117, 105, 118, 111]"
  by (simp add: py_def)

lemma arquivo_safe: "c \<in> set (py ''arquivo'') \<Longrightarrow> \<not> unsafe_char c \<and> \<not> py_isspace c"
  unfolding py_arquivo by (auto simp: unsafe_char_def py_isspace_def)

lemma sanitize_filename_chars:
  assumes "c \<in> set (sanitize_filename s)"
  shows "\<not> unsafe_char c \<and> \<not> py_isspace c"
proof -
  define name1 where "name1 = sub_runs unsafe_char (py ''_'') (py_strip s)"
  define name2 where "name2 = py_strip (sub_runs py_isspace (py '' '') name1)"
  define name3 where "name3 = str_replace 0x20 0x5F name2"
  have r: "sanitize_filename s = (if name3 = [] then py ''arquivo'' else name3)"
    by (simp add: sanitize_filename_def name1_def name2_def name3_def Let_def)
  have s1: "\<forall>x \<in> set name1. \<not> unsafe_char x"
    using set_sub_runs[of unsafe_char "py ''_''" "py_strip s"] underscore_safe
    unfolding name1_def py_single by auto
  have s2: "\<forall>x \<in> set name2. (x \<in> set name1 \<and> \<not> py_isspace x) \<or> x = 0x20"
    using set_sub_runs[of py_isspace "py '' ''" name1] set_py_strip
    unfolding name2_def py_single by fastforce
  have s3: "\<forall>x \<in> set name3. (x \<in> set name1 \<and> \<not> py_isspace x) \<or> x = 0x5F"
    using set_str_replace[of "0x20" "0x5F" name2] s2 unfolding name3_def by fastforce
  show ?thesis
  proof (cases "name3 = []")
    case True
    with assms r show ?thesis by (simp add: arquivo_safe)
  next
    case False
    with assms r have "c \<in> set name3" by simp
    with s3 s1 underscore_safe show ?thesis by auto
  qed
qed








subsection \<open>Percent-decoding\<close>

lemma pct_decode_no_percent: "0x25 \<notin> set s \<Longrightarrow> pct_decode s = s"
  by (simp add: pct_decode_def)

lemma pct_decode_example1: "pct_decode (py ''a%20b'') = py ''a b''"
  by (simp add: py_def pct_decode_def int_base16_def hexval_def int_blank_def
      utf8_encode_cp_def)

lemma pct_decode_example2: "pct_decode (py ''100%'') = py ''100%''"
  by (simp add: py_def pct_decode_def int_base16_def hexval_def int_blank_def
      utf8_encode_cp_def)

text \<open>
  Claim C4 says that a \<open>%\<close> not followed by two hexadecimal digits is passed through
  unchanged, as the docstring of \<open>pct_decode\<close> and the unused pattern \<open>_pct_pat\<close> do.
  The code hands the two characters to \<open>int(_, 16)\<close>, which also accepts a sign or a
  blank next to a single digit: \<open>%+5\<close> is decoded to the byte 5 and \<open>% 7\<close> to the
  byte 7.
\<close>

theorem pct_decode_accepts_sign:
  "pct_decode (py ''%+5'') = [0x05] \<and> pct_decode (py ''% 7'') = [0x07]
   \<and> pct_decode (py ''%+5'') \<noteq> py ''%+5''"
  by (simp add: py_def pct_decode_def int_base16_def hexval_def int_blank_def
      utf8_encode_cp_def)


section \<open>Properties of the resource filters\<close>














section \<open>Properties of the file-name resolver\<close>



lemma cd_match_miss: "\<not> ci_char 0x66 c \<Longrightarrow> cd_match (c # cs) = None"
  by (simp add: cd_match_def py_def)

lemma cd_search_skip: "\<not> ci_char 0x66 c \<Longrightarrow> cd_search (c # cs) = cd_search cs"
  by (simp add: cd_match_miss)




section \<open>Properties of the CKAN client\<close>


lemma snd_ckan_call:
  "snd (ckan_call base action params w) = w\<lparr>sent := sent w + 1\<rparr>"
  by (simp add: ckan_call_def http_def)



section \<open>Properties of the streaming downloader\<close>

lemma files_emit [simp]: "files (emit e w) = files w"
  and net_emit [simp]: "net (emit e w) = net w"
  and sent_emit [simp]: "sent (emit e w) = sent w"
  by (simp_all add: emit_def)

lemma norm_path_snoc: "norm_path (p @ [c]) = (if c = py ''..'' then butlast (norm_path p) else norm_path p @ [c])"
  by (simp add: norm_path_def)

lemma norm_path_Nil [simp]: "norm_path [] = []"
  by (simp add: norm_path_def)

lemma length_norm_path: "length (norm_path p) \<le> length p"
  by (induction p rule: rev_induct) (auto simp: norm_path_snoc)

lemma norm_path_fixed: "norm_path p = p \<Longrightarrow> py ''..'' \<notin> set p"
proof (induction p rule: rev_induct)
  case Nil
  show ?case by simp
next
  case (snoc c p)
  show ?case
  proof (cases "c = py ''..''")
    case True
    with snoc.prems have "butlast (norm_path p) = p @ [c]" by (simp add: norm_path_snoc)
    then have "length (butlast (norm_path p)) = Suc (length p)" by simp
    with length_norm_path[of p] show ?thesis by simp
  next
    case False
    with snoc show ?thesis by (simp add: norm_path_snoc)
  qed
qed

lemma split_on_no_sep: "sep \<notin> set s \<Longrightarrow> split_on sep s = [s]"
  by (induction s) auto

lemma path_parts_name:
  assumes "0x2F \<notin> set f" "f \<noteq> []"
  shows "path_parts f = (if f = py ''.'' then [] else [f])"
  using assms by (simp add: path_parts_def split_on_no_sep)

lemma write_chunks_files:
  assumes "files w (norm_path tmp) = Some (File (Bytes old))"
    and "write_chunks fn total_len tmp cs d w = (d', w')"
  shows "files w' = (files w)(norm_path tmp \<mapsto> File (Bytes (old @ concat cs)))
         \<and> d' = d + length (concat cs) \<and> sent w' = sent w \<and> net w' = net w"
  using assms
proof (induction cs arbitrary: d w old)
  case Nil
  then show ?case by auto
next
  case (Cons c cs)
  let ?w1 = "w\<lparr>files := append_bytes tmp c (files w)\<rparr>"
  let ?w2 = "if total_len \<noteq> 0
             then emit (Printed (Progress fn (d + length c) total_len)) ?w1 else ?w1"
  have f2: "files ?w2 = (files w)(norm_path tmp \<mapsto> File (Bytes (old @ c)))"
    using Cons.prems(1) by (simp add: append_bytes_def)
  then have g: "files ?w2 (norm_path tmp) = Some (File (Bytes (old @ c)))" by simp
  have r: "write_chunks fn total_len tmp cs (d + length c) ?w2 = (d', w')"
    using Cons.prems(2) by (simp add: Let_def)
  from Cons.IH[OF g r] f2 show ?case by (auto simp: fun_upd_def)
qed

lemma mkdir_p_result:
  assumes "mkdir_p d (files w) = Inr fs1"
  shows "fs1 (norm_path d) = Some Dir" and "\<forall>a \<in> set (ancestors (norm_path d)). fs1 a = Some Dir"
    and "\<forall>p. is_file (fs1 p) = is_file (files w p)"
    and "\<forall>p. is_file (files w p) \<longrightarrow> fs1 p = files w p"
proof -
  have nf: "\<not> is_file (files w (norm_path d))"
    and na: "\<not> list_ex (\<lambda>p. is_file (files w p)) (ancestors (norm_path d))"
    and fs1: "fs1 = (\<lambda>p. if p = norm_path d \<or> p \<in> set (ancestors (norm_path d)) then Some Dir
                          else files w p)"
    using assms by (auto simp: mkdir_p_def Let_def split: if_splits)
  show "fs1 (norm_path d) = Some Dir" and "\<forall>a \<in> set (ancestors (norm_path d)). fs1 a = Some Dir"
    by (simp_all add: fs1)
  show "\<forall>p. is_file (fs1 p) = is_file (files w p)"
    using nf na by (auto simp: fs1 list_ex_iff)
  show "\<forall>p. is_file (files w p) \<longrightarrow> fs1 p = files w p"
    using nf na by (auto simp: fs1 list_ex_iff)
qed

lemma butlast_ancestor: "p \<noteq> [] \<Longrightarrow> butlast p \<in> set (ancestors p)"
proof -
  assume "p \<noteq> []"
  then have "butlast p = take (length p - 1) p" and "length p - 1 < length p"
    by (simp_all add: butlast_conv_take)
  then show ?thesis unfolding ancestors_def by (metis atLeast0LessThan imageI lessThan_iff set_map set_upt)
qed

text \<open>A status outside 200-299: the exception is raised when only the directory has
  been made; no file is created or changed.\<close>

lemma download_stream_bad_status:
  assumes "mkdir_p dest_dir (files w) = Inr fs1"
    and "net w (sent w) (Stream url) = Inr r" and "\<not> is_success (status_code r)"
  shows "download_stream url_path url dest_dir name_hint w
           = (Inl (HTTPStatusError (status_code r)), w\<lparr>files := fs1, sent := sent w + 1\<rparr>)"
  using assms by (simp add: download_stream_def http_def)

lemma guess_filename_chars:
  "guess_filename url_path r url name_hint \<noteq> []
   \<and> 0x2F \<notin> set (guess_filename url_path r url name_hint)"
proof -
  have slash: "unsafe_char 0x2F" by (simp add: unsafe_char_def)
  have s1: "\<And>x. sanitize_filename x \<noteq> []"
    by (simp add: sanitize_filename_def Let_def py_arquivo)
  have s2: "\<And>x. 0x2F \<notin> set (sanitize_filename x)"
    using sanitize_filename_chars slash by blast
  note s = s1 s2
  have x: "0x2F \<notin> set (py ''.xlsx'')" "0x2F \<notin> set (py ''arquivo.xlsx'')" "py ''arquivo.xlsx'' \<noteq> []"
    by (simp_all add: py_def)
  show ?thesis
    unfolding guess_filename_def using s x
    by (auto simp: Let_def split: option.splits list.splits)
qed

lemma save_body_success:
  assumes "save_body r f out tmp w = (Inr p, w')"
  shows "\<exists>fs3 n. stream_error r = None \<and> p = out
           \<and> open_w tmp (Bytes []) (files w) = Inr fs3
           \<and> replace tmp out (fs3(norm_path tmp \<mapsto> File (Bytes (concat (body_chunks r)))))
               = Inr (files w')"
proof -
  from assms obtain t where t: "content_length r = Some t"
    by (cases "content_length r") (auto simp: save_body_def)
  from assms t obtain fs3 where o: "open_w tmp (Bytes []) (files w) = Inr fs3"
    by (cases "open_w tmp (Bytes []) (files w)") (auto simp: save_body_def)
  obtain d w3 where wc: "write_chunks f t tmp (body_chunks r) 0 (w\<lparr>files := fs3\<rparr>) = (d, w3)"
    by (cases "write_chunks f t tmp (body_chunks r) 0 (w\<lparr>files := fs3\<rparr>)")
  have "fs3 (norm_path tmp) = Some (File (Bytes []))"
    using o by (auto simp: open_w_def Let_def split: if_splits)
  then have "files (w\<lparr>files := fs3\<rparr>) (norm_path tmp) = Some (File (Bytes []))" by simp
  from write_chunks_files[OF this wc]
  have f3: "files w3 = fs3(norm_path tmp \<mapsto> File (Bytes (concat (body_chunks r))))" by simp
  from assms t o wc have se: "stream_error r = None"
    by (cases "stream_error r") (auto simp: save_body_def)
  from assms t o wc se obtain fs4 where rp: "replace tmp out (files w3) = Inr fs4"
    by (cases "replace tmp out (files w3)") (auto simp: save_body_def)
  from assms t o wc se rp have "p = out" and "files w' = fs4"
    by (auto simp: save_body_def Let_def)
  with se o rp f3 show ?thesis by auto
qed

lemma part_not_dotdot: "f @ py ''.part'' \<noteq> py ''..''"
proof
  assume "f @ py ''.part'' = py ''..''"
  then have "length (f @ py ''.part'') = length (py ''..'')" by simp
  then show False by (simp add: py_def)
qed

lemma part_longer: "f @ py ''.part'' \<noteq> f"
  by (simp add: py_def)

text \<open>What a successful download leaves behind: the body under the final name in the
  destination directory, nothing under the temporary name, and every other path as it
  was, apart from the directories made for the destination.\<close>

lemma download_stream_success:
  assumes nd: "norm_path dest = dest"
    and ok: "download_stream url_path url dest name_hint w = (Inr p, w')"
  shows "\<exists>r. net w (sent w) (Stream url) = Inr r \<and> is_success (status_code r)
           \<and> stream_error r = None
           \<and> p = dest @ [guess_filename url_path r url name_hint]
           \<and> files w' p = Some (File (Bytes (concat (body_chunks r))))
           \<and> files w' (dest @ [guess_filename url_path r url name_hint @ py ''.part'']) = None
           \<and> (\<forall>q. q \<noteq> p \<and> q \<noteq> dest @ [guess_filename url_path r url name_hint @ py ''.part'']
                  \<and> q \<noteq> dest \<and> q \<notin> set (ancestors dest) \<longrightarrow> files w' q = files w q)"
proof -
  from ok obtain fs1 where m: "mkdir_p dest (files w) = Inr fs1"
    by (cases "mkdir_p dest (files w)") (auto simp: download_stream_def)
  from ok m obtain r where n: "net w (sent w) (Stream url) = Inr r"
    by (cases "net w (sent w) (Stream url)") (auto simp: download_stream_def http_def)
  from ok m n have s: "is_success (status_code r)"
    by (auto simp: download_stream_def http_def split: if_splits)
  define f where "f = guess_filename url_path r url name_hint"
  define out where "out = path_join dest f"
  define w2 where "w2 = w\<lparr>files := fs1, sent := sent w + 1\<rparr>"
  from ok m n s obtain tmp where t: "with_part out = Inr tmp"
    and sb: "save_body r f out tmp w2 = (Inr p, w')"
    by (cases "with_part out")
      (auto simp: download_stream_def http_def Let_def f_def out_def w2_def)
  from save_body_success[OF sb] obtain fs3 where se: "stream_error r = None"
    and p: "p = out" and o: "open_w tmp (Bytes []) fs1 = Inr fs3"
    and rp: "replace tmp out (fs3(norm_path tmp \<mapsto> File (Bytes (concat (body_chunks r)))))
               = Inr (files w')"
    by (auto simp: w2_def)
  let ?body = "File (Bytes (concat (body_chunks r)))"
  have fs3: "fs3 = fs1(norm_path tmp \<mapsto> File (Bytes []))" and tn: "norm_path tmp \<noteq> []"
    using o by (auto simp: open_w_def Let_def split: if_splits)
  have fne: "f \<noteq> []" and fsl: "0x2F \<notin> set f"
    using guess_filename_chars[of url_path r url name_hint] by (simp_all add: f_def)
  have dirs: "fs1 dest = Some Dir" "\<forall>a \<in> set (ancestors dest). fs1 a = Some Dir"
    using mkdir_p_result(1,2)[OF m] nd by simp_all
  have other: "\<forall>q. q \<noteq> dest \<and> q \<notin> set (ancestors dest) \<longrightarrow> fs1 q = files w q"
    using m nd by (auto simp: mkdir_p_def Let_def split: if_splits)
  have dst_ok: "norm_path out \<noteq> []"
    "(fs3(norm_path tmp \<mapsto> ?body)) (norm_path out) \<noteq> Some Dir"
    and fin: "files w' = ((fs3(norm_path tmp \<mapsto> ?body))(norm_path tmp := None))(norm_path out \<mapsto> ?body)"
    using rp by (auto simp: replace_def Let_def split: if_splits option.splits)
  have not_dot: "f \<noteq> py ''.''"
  proof
    assume d: "f = py ''.''"
    then have out_d: "out = dest"
      using fne fsl by (simp add: out_def path_join_def path_parts_name)
    then obtain b l where dest: "dest = b @ [l]" and tmp: "tmp = b @ [l @ py ''.part'']"
      using t by (cases dest rule: rev_cases) (auto simp: with_part_def)
    have "l \<noteq> py ''..''"
      using norm_path_fixed[OF nd] dest by auto
    then have "norm_path dest = norm_path b @ [l]"
      unfolding dest by (simp add: norm_path_snoc)
    moreover have "norm_path tmp = norm_path b @ [l @ py ''.part'']"
      unfolding tmp by (simp add: norm_path_snoc part_not_dotdot)
    ultimately have "norm_path tmp \<noteq> dest"
      using nd part_longer[of l] by auto
    then have "(fs3(norm_path tmp \<mapsto> ?body)) (norm_path out) = Some Dir"
      using dirs(1) by (simp add: out_d nd fs3)
    with dst_ok(2) show False by simp
  qed
  then have out: "out = dest @ [f]"
    using fne fsl by (simp add: out_def path_join_def path_parts_name)
  then have tmp: "tmp = dest @ [f @ py ''.part'']"
    using t by (simp add: with_part_def)
  have ntmp: "norm_path tmp = dest @ [f @ py ''.part'']"
    unfolding tmp by (simp add: norm_path_snoc part_not_dotdot nd)
  have not_dotdot: "f \<noteq> py ''..''"
  proof
    assume d: "f = py ''..''"
    then have no: "norm_path out = butlast dest"
      by (simp add: out norm_path_snoc nd)
    with dst_ok(1) have "dest \<noteq> []" by auto
    then have "butlast dest \<in> set (ancestors dest)" by (rule butlast_ancestor)
    then have "fs1 (butlast dest) = Some Dir" using dirs(2) by blast
    moreover have "norm_path tmp \<noteq> butlast dest"
    proof
      assume "norm_path tmp = butlast dest"
      then have "length (norm_path tmp) = length (butlast dest)" by simp
      then show False unfolding ntmp by simp
    qed
    ultimately have "(fs3(norm_path tmp \<mapsto> ?body)) (norm_path out) = Some Dir"
      by (simp add: no fs3)
    with dst_ok(2) show False by simp
  qed
  then have nout: "norm_path (dest @ [f]) = dest @ [f]"
    by (simp add: norm_path_snoc nd)
  have neq: "dest @ [f @ py ''.part''] \<noteq> dest @ [f]"
    using part_longer[of f] by simp
  have fin': "files w' = ((fs3(dest @ [f @ py ''.part''] \<mapsto> ?body))
                            (dest @ [f @ py ''.part''] := None))(dest @ [f] \<mapsto> ?body)"
    using fin unfolding ntmp out nout .
  have fs3': "fs3 = fs1(dest @ [f @ py ''.part''] \<mapsto> File (Bytes []))"
    using fs3 unfolding ntmp .
  have "files w' p = Some ?body"
    unfolding fin' p out by simp
  moreover have "files w' (dest @ [f @ py ''.part'']) = None"
    unfolding fin' using neq by simp
  moreover have "\<forall>q. q \<noteq> p \<and> q \<noteq> dest @ [f @ py ''.part''] \<and> q \<noteq> dest
                   \<and> q \<notin> set (ancestors dest) \<longrightarrow> files w' q = files w q"
    unfolding fin' fs3' p out using other by simp
  ultimately show ?thesis
    using n s se p out unfolding f_def by blast
qed

lemma guess_filename_resp_dot:
  "guess_filename url_path resp_dot fallback_url name_hint = py ''.''"
proof -
  have cd: "content_disposition resp_dot = py ''attachment; filename='' @ [0x22, 0x2E, 0x22]"
    by (simp add: content_disposition_def resp_dot_def headers_get_def py_def py_lower_def
        lower_cp_def)
  have skip: "cd_search (py ''attachment; filename='' @ [0x22, 0x2E, 0x22])
                = cd_search (py ''filename='' @ [0x22, 0x2E, 0x22])"
    by (simp add: py_def cd_match_miss ci_char_def lower_cp_def)
  have "cd_match (py ''filename='' @ [0x22, 0x2E, 0x22]) = Some (py ''.'')"
    by (simp add: py_def cd_match_def opt_def ci_char_def lower_cp_def token_char_def)
  then have "cd_search (py ''filename='' @ [0x22, 0x2E, 0x22]) = Some (py ''.'')"
    by (simp add: py_def)
  then have "cd_search (content_disposition resp_dot) = Some (py ''.'')"
    unfolding cd skip .
  moreover have "sanitize_filename (pct_decode (py ''.'')) = py ''.''"
    by (simp add: pct_decode_def sanitize_filename_def py_strip_def py_isspace_def
        unsafe_char_def str_replace_def py_def)
  ultimately show ?thesis by (simp add: guess_filename_def)
qed

text \<open>
  Claim C2 says that a download with a 2xx status streams the body to a temporary file
  in the destination directory. When the header names the file \<open>.\<close>, which
  \<open>sanitize_filename\<close> lets through, \<open>dest_dir / filename\<close> is the destination
  directory itself: the body is written to a file beside that directory, the rename
  onto the directory fails, and the file stays there.
\<close>

theorem download_stream_dot_name:
  "guess_filename path_after_host resp_dot (py ''http://h/f'') None = py ''.''
   \<and> fst (download_stream path_after_host (py ''http://h/f'') [py ''out''] None
            (world_of (\<lambda>n q. Inr resp_dot))) = Inl IsADirectoryError
   \<and> files (snd (download_stream path_after_host (py ''http://h/f'') [py ''out''] None
                   (world_of (\<lambda>n q. Inr resp_dot)))) [py ''out.part'']
       = Some (File (Bytes [1, 2, 3]))
   \<and> files (snd (download_stream path_after_host (py ''http://h/f'') [py ''out''] None
                   (world_of (\<lambda>n q. Inr resp_dot)))) [py ''out'']
       = Some Dir"
proof -
  have p: "path_parts (py ''.'') = []"
    by (simp add: path_parts_def py_def)
  have st: "is_success (status_code resp_dot)" "stream_error resp_dot = None"
    "body_chunks resp_dot = [[1, 2], [3]]" "content_length resp_dot = Some 0"
    by (simp_all add: resp_dot_def is_success_def content_length_def headers_get_def py_def
        py_lower_def lower_cp_def)
  have o: "py ''out'' @ py ''.part'' = py ''out.part''" by (simp add: py_def)
  have ne: "py ''out.part'' \<noteq> py ''..''" "py ''out'' \<noteq> py ''..''"
    "py ''out.part'' \<noteq> py ''out''" "py ''out'' \<noteq> py ''out.part''"
    by (simp_all add: py_def)
  let ?run = "download_stream path_after_host (py ''http://h/f'') [py ''out''] None
                (world_of (\<lambda>n q. Inr resp_dot))"
  have "?run
        = (Inl IsADirectoryError,
           \<lparr>trace = [],
            files = (\<lambda>p. if p = [py ''out''] \<or> p = [] then Some Dir
                          else ([[] \<mapsto> Dir]) p)
                      ([py ''out.part''] \<mapsto> File (Bytes [1, 2, 3])),
            net = \<lambda>n q. Inr resp_dot, sent = 1\<rparr>)"
    by (simp add: download_stream_def mkdir_p_def http_def world_of_def st
        guess_filename_resp_dot path_join_def p with_part_def o save_body_def open_w_def
        append_bytes_def replace_def norm_path_def ancestors_def ne Let_def)
  then show ?thesis
    using ne by (simp add: guess_filename_resp_dot)
qed

section \<open>Properties of the operations\<close>

lemma printed_emit [simp]: "printed (emit e w) = printed w @ printed_of e"
  by (simp add: printed_def emit_def)

lemma loop_log_emit [simp]:
  "loop_log (emit e w) = loop_log w @ filter loop_msg (printed_of e)"
  by (simp add: loop_log_def)

lemma group_log_emit [simp]:
  "group_log (emit e w) = group_log w @ filter group_msg (printed_of e)"
  by (simp add: group_log_def)

lemma printed_files_update [simp]: "printed (w\<lparr>files := fs\<rparr>) = printed w"
  and printed_sent_update [simp]: "printed (w\<lparr>sent := k\<rparr>) = printed w"
  by (simp_all add: printed_def)


lemma group_log_update [simp]:
  "group_log (w\<lparr>files := fs\<rparr>) = group_log w" "group_log (w\<lparr>sent := k\<rparr>) = group_log w"
  by (simp_all add: group_log_def)







lemma download_loop_failed:
  "res_url r \<noteq> [] \<Longrightarrow>
   download_with_retry (download_stream url_path (res_url r) out (Some (res_pretty_name r)))
     (res_url r) retry sl
     (emit (Printed (UrlLine (res_url r))) (emit (Printed (Downloading i n (res_pretty_name r))) w))
     = (Inl e, w2) \<Longrightarrow>
   download_loop url_path out retry sl n i (r # rs) w
     = download_loop url_path out retry sl n (i + 1) rs (emit (Printed (Failed e)) w2)"
  by (simp add: Let_def)






















text \<open>The single-attempt downloader of the script is quiet, so what is proved of the
  retry wrapper for quiet downloaders holds for the wrapper as the script uses it.\<close>

lemma counters_update [simp]:
  "n_attempts (w\<lparr>files := fs\<rparr>) = n_attempts w" "n_attempts (w\<lparr>sent := k\<rparr>) = n_attempts w"
  "n_failures (w\<lparr>files := fs\<rparr>) = n_failures w" "n_failures (w\<lparr>sent := k\<rparr>) = n_failures w"
  "sleeps (w\<lparr>files := fs\<rparr>) = sleeps w" "sleeps (w\<lparr>sent := k\<rparr>) = sleeps w"
  by (simp_all add: n_attempts_def n_failures_def sleeps_def)

lemma write_chunks_quiet:
  "n_attempts (snd (write_chunks fn total_len tmp cs d w)) = n_attempts w
   \<and> n_failures (snd (write_chunks fn total_len tmp cs d w)) = n_failures w
   \<and> sleeps (snd (write_chunks fn total_len tmp cs d w)) = sleeps w"
  by (induction cs arbitrary: d w) (simp_all add: Let_def)

lemma save_body_quiet:
  "n_attempts (snd (save_body r f out tmp w)) = n_attempts w
   \<and> n_failures (snd (save_body r f out tmp w)) = n_failures w
   \<and> sleeps (snd (save_body r f out tmp w)) = sleeps w"
proof -
  have wc: "\<And>t fs d w3. write_chunks f t tmp (body_chunks r) 0 (w\<lparr>files := fs\<rparr>) = (d, w3)
              \<Longrightarrow> n_attempts w3 = n_attempts w \<and> n_failures w3 = n_failures w
                  \<and> sleeps w3 = sleeps w"
    using write_chunks_quiet[of f _ tmp "body_chunks r" 0 "w\<lparr>files := _\<rparr>"]
    by (metis counters_update(1,3,5) snd_conv)
  show ?thesis
    unfolding save_body_def
    by (auto simp: Let_def dest: wc split: option.splits sum.splits prod.splits)
qed

lemma quiet_download_stream: "quiet (download_stream url_path u dest name_hint)"
  unfolding quiet_def download_stream_def http_def
  by (auto simp: Let_def save_body_quiet split: sum.splits)


lemma or_str_not_empty: "d \<noteq> [] \<Longrightarrow> or_str x d \<noteq> []"
  by (induction x d rule: or_str.induct) simp_all

lemma res_pretty_name_not_empty: "res_pretty_name r \<noteq> []"
  unfolding res_pretty_name_def by (rule or_str_not_empty) (simp add: py_def)

end
